theory Spec2Isabelle
  imports Main
begin

section \<open>Values shared by the backend modules\<close>

text \<open>
  Modelled from the spec: the enum \<open>HTTPCode\<close> of \<open>~/libs/modules/http/http.js\<close> is not
  among the source files. The server only reads three of its members; the specification
  gives \<open>UNPROCESSED_ENTITY\<close> as 422 and \<open>INTERNAL_SERVER_ERROR\<close> as 500, and
  \<open>OK\<close> is the HTTP code 200. A status is the number that \<open>reply.status\<close> receives.
\<close>

definition HTTPCode_OK :: nat where
  "HTTPCode_OK = 200"

definition HTTPCode_UNPROCESSED_ENTITY :: nat where
  "HTTPCode_UNPROCESSED_ENTITY = 422"

definition HTTPCode_INTERNAL_SERVER_ERROR :: nat where
  "HTTPCode_INTERNAL_SERVER_ERROR = 500"

text \<open>The two members of \<open>ServerErrorType\<close> that the error handler writes.\<close>

datatype ServerErrorType = COMMON | VALIDATION

subsection \<open>Strings\<close>

text \<open>
  A JavaScript string is modelled by its UTF-8 bytes. The log messages of the server
  contain three characters outside ASCII: an em dash, an en dash and an ellipsis.
\<close>

definition em_dash :: string where
  "em_dash = [char_of (0xE2 :: nat), char_of (0x80 :: nat), char_of (0x94 :: nat)]"

definition en_dash :: string where
  "en_dash = [char_of (0xE2 :: nat), char_of (0x80 :: nat), char_of (0x93 :: nat)]"

definition ellipsis :: string where
  "ellipsis = [char_of (0xE2 :: nat), char_of (0x80 :: nat), char_of (0xA6 :: nat)]"

text \<open>\<open>Number.prototype.toString\<close> on a non-negative integer: its decimal digits.\<close>

definition digit :: "nat \<Rightarrow> char" where
  "digit n = char_of (48 + n)"

function number_toString :: "nat \<Rightarrow> string" where
  "number_toString n =
     (if n < 10 then [digit n] else number_toString (n div 10) @ [digit (n mod 10)])"
  by pat_completeness auto
termination
  by (relation "measure (\<lambda>n. n)") auto

text \<open>\<open>Array.prototype.join\<close> with a separator.\<close>

fun join :: "string \<Rightarrow> string list \<Rightarrow> string" where
  "join sep [] = []"
| "join sep [s] = s"
| "join sep (s # t # ts) = s @ sep @ join sep (t # ts)"

subsection \<open>Errors\<close>

text \<open>
  A validation issue carries a message and a path, whose segments are property names or
  array indices. \<open>issue.path.toString()\<close> joins the segments with commas.
\<close>

datatype path_segment = Name string | Index nat

fun segment_toString :: "path_segment \<Rightarrow> string" where
  "segment_toString (Name s) = s"
| "segment_toString (Index n) = number_toString n"

definition path_toString :: "path_segment list \<Rightarrow> string" where
  "path_toString p = join '','' (map segment_toString p)"

datatype issue = Issue (message: string) (path: "path_segment list")

text \<open>
  An error object, by the properties the server reads. \<open>issues\<close> is \<open>Some\<close> exactly when
  \<open>"issues" in error\<close> holds (a \<open>ValidationError\<close>); \<open>status\<close> is \<open>Some s\<close> exactly when
  the error is an instance of \<open>HTTPError\<close>, whose status is \<open>s\<close>.
\<close>

record error =
  message :: string
  cause :: "string option"
  stack :: "string option"
  issues :: "issue list option"
  status :: "nat option"

text \<open>What a \<open>catch\<close> clause receives: an instance of \<open>Error\<close>, or any other value.\<close>

datatype thrown = ErrorInstance error | OtherValue string

subsection \<open>Logger and reply\<close>

datatype log_meta = Meta (cause: "string option") (stack: "string option")

datatype log_entry = Info string | Error string "log_meta option"

datatype detail = Detail (message: string) (path: "path_segment list")

datatype response =
    ServerValidationErrorResponse (details: "detail list") (errorType: ServerErrorType)
      (message: string)
  | ServerCommonErrorResponse (errorType: ServerErrorType) (message: string)

text \<open>
  The reply of a request: the status set by \<open>reply.status\<close> and what has been sent, in
  order. \<open>send\<close> sends a payload under the current status; \<open>sendFile\<close> sends a file of a
  directory.
\<close>

type_synonym path = "string list"

datatype outgoing = Payload nat response | File string path

record reply =
  statusCode :: nat
  sent :: "outgoing list"

definition reply_status :: "nat \<Rightarrow> reply \<Rightarrow> reply" where
  "reply_status code rp = rp\<lparr>statusCode := code\<rparr>"

definition reply_send :: "response \<Rightarrow> reply \<Rightarrow> reply" where
  "reply_send payload rp = rp\<lparr>sent := sent rp @ [Payload (statusCode rp) payload]\<rparr>"

definition reply_sendFile :: "string \<Rightarrow> path \<Rightarrow> reply \<Rightarrow> reply" where
  "reply_sendFile name dir rp = rp\<lparr>sent := sent rp @ [File name dir]\<rparr>"

section \<open>The server application\<close>

subsection \<open>The error handler\<close>

text \<open>
  The handler that \<open>initErrorHandler\<close> installs. It returns the entries it writes to the
  logger and the reply after it. The loop over the issues logs one entry per issue.
\<close>

fun log_issues :: "issue list \<Rightarrow> log_entry list" where
  "log_issues [] = []"
| "log_issues (i # rest) =
     Error (''['' @ path_toString (issue.path i) @ ''] '' @ em_dash @ '' '' @ issue.message i) None
       # log_issues rest"

definition errorHandler :: "error \<Rightarrow> reply \<Rightarrow> log_entry list \<times> reply" where
  "errorHandler e rp =
     (case issues e of
        Some iss \<Rightarrow>
          (Error (''[Validation Error]: '' @ error.message e) None # log_issues iss,
           reply_send
             (ServerValidationErrorResponse
                (map (\<lambda>i. Detail (issue.message i) (issue.path i)) iss)
                VALIDATION
                (error.message e))
             (reply_status HTTPCode_UNPROCESSED_ENTITY rp))
      | None \<Rightarrow>
          (case status e of
             Some s \<Rightarrow>
               ([Error (''[HTTP Error]: '' @ number_toString s @ '' '' @ en_dash @ '' ''
                          @ error.message e) None],
                reply_send (ServerCommonErrorResponse COMMON (error.message e))
                  (reply_status s rp))
           | None \<Rightarrow>
               ([Error (error.message e) None],
                reply_send (ServerCommonErrorResponse COMMON (error.message e))
                  (reply_status HTTPCode_INTERNAL_SERVER_ERROR rp))))"

subsection \<open>Routes and validation schemas\<close>

text \<open>
  A validation schema is used through its \<open>parse\<close> method only, which returns the parsed
  data or throws a validation error.
\<close>

datatype 'd ValidationSchema = ValidationSchema (parse: "'d \<Rightarrow> error + 'd")

datatype 'd validation =
  Validation (body: "'d ValidationSchema option") (params: "'d ValidationSchema option")
    (query: "'d ValidationSchema option")

text \<open>
  \<open>ServerApplicationRouteParameters\<close>: \<open>preHandlers\<close> and \<open>validation\<close> are optional.
  \<open>'h\<close> is the type of handlers and \<open>'p\<close> the type of pre-handler hooks.
\<close>

datatype ('d, 'h, 'p) ServerApplicationRouteParameters =
  RouteParameters (handler: 'h) (method': string) (path: string)
    (preHandlers: "'p list option") (validation: "'d validation option")

text \<open>The \<open>RouteOptions\<close> object that \<open>addRoute\<close> hands to \<open>app.route\<close>.\<close>

datatype 'd route_schema =
  Schema (body: "'d ValidationSchema option") (params: "'d ValidationSchema option")
    (querystring: "'d ValidationSchema option")

datatype ('d, 'h, 'p) RouteOptions =
  RouteOptions (handler: 'h) (method': string) (schema: "'d route_schema") (url: string)
    (preHandler: "'p list")

subsection \<open>Collaborators\<close>

text \<open>
  Objects that the server receives and passes on without looking into them: each is
  known by a label only.
\<close>

datatype opaque = Opaque string

type_synonym UserService = opaque

type_synonym Token = opaque

type_synonym WhiteRoutes = opaque

type_synonym SwaggerDocument = opaque

text \<open>
  The imports of the server module that are not among the source files, taken as
  parameters: the constants \<open>MAX_FILE_SIZE_IN_MB\<close> and \<open>WHITE_ROUTES\<close>, the helper
  \<open>getSizeInBytes\<close>, and the two members of \<open>ContentType\<close> that the server names.
\<close>

record libs =
  MAX_FILE_SIZE_IN_MB :: nat
  getSizeInBytes :: "nat \<Rightarrow> nat"
  ContentType_JPEG :: string
  ContentType_PNG :: string
  WHITE_ROUTES :: WhiteRoutes

datatype plugin =
    fastifyCors (origin: string) (methods: "string list")
  | fastifyStatic (prefix: string) (root: path)
  | swagger (mode: string) (document: SwaggerDocument)
  | swaggerUi (routePrefix: string)
  | authorization UserService Token WhiteRoutes
  | fileUpload (allowedExtensions: "string list") (fileSize: nat)

text \<open>
  Every call the server makes on a collaborator: the logger, the Fastify application,
  the socket service, the subscription service and the database. The state of the
  world is the list of the calls made so far, in order.
\<close>

datatype ('d, 'h, 'p) call =
    logger log_entry
  | register plugin
  | setNotFoundHandler "reply \<Rightarrow> reply"
  | setValidatorCompiler "'d ValidationSchema \<Rightarrow> 'd \<Rightarrow> error + 'd"
  | setErrorHandler "error \<Rightarrow> reply \<Rightarrow> log_entry list \<times> reply"
  | route "('d, 'h, 'p) RouteOptions"
  | socketService_initialize
  | subscriptionService_initCrone
  | database_connect
  | listen string nat

subsection \<open>The application object\<close>

record Config =
  HOST :: string
  PORT :: nat
  ENVIRONMENT :: string

datatype ('d, 'h, 'p) ServerApplicationApi =
  Api (generateDoc: "string \<Rightarrow> SwaggerDocument")
    (routes: "('d, 'h, 'p) ServerApplicationRouteParameters list") (version: string)

text \<open>
  The fields of \<open>BaseServerApplication\<close> that its methods read. \<open>moduleFile\<close> stands for
  \<open>fileURLToPath(import.meta.url)\<close>, the absolute path of the server module, as the list
  of its segments.
\<close>

record ('d, 'h, 'p) BaseServerApplication =
  apis :: "('d, 'h, 'p) ServerApplicationApi list"
  config :: Config
  title :: string
  token :: Token
  userService :: UserService
  moduleFile :: path

text \<open>\<open>dirname\<close> and \<open>join\<close> of \<open>node:path\<close> on absolute paths: \<open>..\<close> steps to the parent
  directory, and the root is its own parent.\<close>

definition dirname :: "path \<Rightarrow> path" where
  "dirname p = butlast p"

fun join_path :: "path \<Rightarrow> string list \<Rightarrow> path" where
  "join_path p [] = p"
| "join_path p (s # ss) = join_path (if s = ''..'' then butlast p else p @ [s]) ss"

definition staticPath :: "('d, 'h, 'p, 'z) BaseServerApplication_scheme \<Rightarrow> path" where
  "staticPath self = join_path (dirname (moduleFile self)) [''..'', ''..'', ''..'', ''..'', ''public'']"

subsection \<open>The methods\<close>

text \<open>
  The constructor creates the Fastify application and registers the CORS plugin on it.
  The world it leaves is the one in which \<open>init\<close> starts.
\<close>

definition constructor :: "('d, 'h, 'p) call list" where
  "constructor =
     [register (fastifyCors ''*'' [''GET'', ''POST'', ''PUT'', ''DELETE'', ''PATCH''])]"

definition initCrons :: "('d, 'h, 'p) call list \<Rightarrow> ('d, 'h, 'p) call list" where
  "initCrons w = w @ [subscriptionService_initCrone]"

definition initErrorHandler :: "('d, 'h, 'p) call list \<Rightarrow> ('d, 'h, 'p) call list" where
  "initErrorHandler w = w @ [setErrorHandler errorHandler]"

definition initPlugins ::
  "libs \<Rightarrow> ('d, 'h, 'p) BaseServerApplication \<Rightarrow> ('d, 'h, 'p) call list \<Rightarrow> ('d, 'h, 'p) call list"
where
  "initPlugins L self w =
     (let w1 = w @ [register (authorization (userService self) (token self) (WHITE_ROUTES L))]
      in w1 @ [register (fileUpload [ContentType_JPEG L, ContentType_PNG L]
                          (getSizeInBytes L (MAX_FILE_SIZE_IN_MB L)))])"

definition initServe ::
  "('d, 'h, 'p) BaseServerApplication \<Rightarrow> ('d, 'h, 'p) call list \<Rightarrow> ('d, 'h, 'p) call list"
where
  "initServe self w =
     (let w1 = w @ [register (fastifyStatic ''/'' (staticPath self))]
      in w1 @ [setNotFoundHandler (\<lambda>response. reply_sendFile ''index.html'' (staticPath self) response)])"

definition initSocket :: "('d, 'h, 'p) call list \<Rightarrow> ('d, 'h, 'p) call list" where
  "initSocket w = w @ [socketService_initialize]"

definition initValidationCompiler :: "('d, 'h, 'p) call list \<Rightarrow> ('d, 'h, 'p) call list" where
  "initValidationCompiler w = w @ [setValidatorCompiler (\<lambda>schema data. parse schema data)]"

text \<open>
  \<open>addRoute\<close>. \<open>routeParameters\<close> is the object that the method builds and hands to
  \<open>app.route\<close>: \<open>preHandlers\<close> defaults to the empty list, and \<open>validation?.body\<close> is
  undefined when there is no validation object.
\<close>

definition routeParameters ::
  "('d, 'h, 'p) ServerApplicationRouteParameters \<Rightarrow> ('d, 'h, 'p) RouteOptions"
where
  "routeParameters parameters =
     (let preHandlers = (case ServerApplicationRouteParameters.preHandlers parameters of
                           None \<Rightarrow> [] | Some hs \<Rightarrow> hs);
          validation = ServerApplicationRouteParameters.validation parameters
      in RouteOptions
           (ServerApplicationRouteParameters.handler parameters)
           (ServerApplicationRouteParameters.method' parameters)
           (Schema
              (case validation of None \<Rightarrow> None | Some v \<Rightarrow> validation.body v)
              (case validation of None \<Rightarrow> None | Some v \<Rightarrow> validation.params v)
              (case validation of None \<Rightarrow> None | Some v \<Rightarrow> validation.query v))
           (ServerApplicationRouteParameters.path parameters)
           preHandlers)"

definition addRoute ::
  "('d, 'h, 'p) ServerApplicationRouteParameters \<Rightarrow> ('d, 'h, 'p) call list \<Rightarrow> ('d, 'h, 'p) call list"
where
  "addRoute parameters w =
     (let w1 = w @ [route (routeParameters parameters)]
      in w1 @ [logger (Info (''Route: '' @ ServerApplicationRouteParameters.method' parameters
                               @ '' '' @ ServerApplicationRouteParameters.path parameters
                               @ '' is registered''))])"

fun addRoutes ::
  "('d, 'h, 'p) ServerApplicationRouteParameters list \<Rightarrow> ('d, 'h, 'p) call list \<Rightarrow> ('d, 'h, 'p) call list"
where
  "addRoutes [] w = w"
| "addRoutes (parameter # rest) w = addRoutes rest (addRoute parameter w)"

text \<open>
  \<open>initMiddlewares\<close> starts one asynchronous task per API and awaits them all. Each
  task runs up to its first \<open>await\<close> when it is started: it logs and registers the
  swagger plugin with the document of its API. The tasks then resume in the order in
  which they were started, and each registers the swagger UI of its API.
\<close>

definition initMiddlewares ::
  "('d, 'h, 'p) BaseServerApplication \<Rightarrow> ('d, 'h, 'p) call list \<Rightarrow> ('d, 'h, 'p) call list"
where
  "initMiddlewares self w =
     w @ concat (map (\<lambda>api.
                    [logger (Info (''Generate swagger documentation for API '' @ version api)),
                     register (swagger ''static'' (generateDoc api (title self)))])
                  (apis self))
       @ map (\<lambda>api. register (swaggerUi (version api @ ''/documentation''))) (apis self)"

definition initRoutes ::
  "('d, 'h, 'p) BaseServerApplication \<Rightarrow> ('d, 'h, 'p) call list \<Rightarrow> ('d, 'h, 'p) call list"
where
  "initRoutes self w = (let routers = concat (map routes (apis self)) in addRoutes routers w)"

text \<open>
  \<open>init\<close>. The outcome of \<open>app.listen\<close> is an input: \<open>None\<close> when the promise resolves,
  \<open>Some x\<close> when it rejects with \<open>x\<close>. The result is \<open>Inl x\<close> when \<open>init\<close> rejects with
  \<open>x\<close>; the second component is the world after it. The calls before \<open>listen\<close> are taken
  to return: the source has no handler for their failure.
\<close>

definition init ::
  "libs \<Rightarrow> ('d, 'h, 'p) BaseServerApplication \<Rightarrow> thrown option \<Rightarrow> ('d, 'h, 'p) call list
     \<Rightarrow> (thrown + unit) \<times> ('d, 'h, 'p) call list"
where
  "init L self listen_outcome w0 =
     (let w1 = w0 @ [logger (Info (''Application initialization'' @ ellipsis))];
          w2 = initServe self w1;
          w3 = initMiddlewares self w2;
          w4 = initValidationCompiler w3;
          w5 = initErrorHandler w4;
          w6 = initPlugins L self w5;
          w7 = initRoutes self w6;
          w8 = initSocket w7;
          w9 = initCrons w8;
          w10 = w9 @ [database_connect];
          w11 = w10 @ [listen (HOST (config self)) (PORT (config self))]
      in case listen_outcome of
           None \<Rightarrow>
             (Inr (),
              w11 @ [logger (Info (''Application is listening on PORT '' @ en_dash @ '' ''
                                    @ number_toString (PORT (config self))
                                    @ '', on ENVIRONMENT '' @ en_dash @ '' ''
                                    @ ENVIRONMENT (config self) @ ''.''))])
         | Some x \<Rightarrow>
             (Inl x,
              case x of
                ErrorInstance e \<Rightarrow>
                  w11 @ [logger (Error (error.message e)
                                   (Some (Meta (error.cause e) (error.stack e))))]
              | OtherValue v \<Rightarrow> w11))"

text \<open>The calls that write an error to the logger.\<close>

definition logs_error :: "('d, 'h, 'p) call \<Rightarrow> bool" where
  "logs_error c = (case c of logger (Error m meta) \<Rightarrow> True | _ \<Rightarrow> False)"

subsection \<open>Requests, as Fastify serves them\<close>

text \<open>
  Modelled from the spec: Fastify is a library, and none of its code is among the
  source files. The properties of validation and of unmatched requests rest on three
  points of its request lifecycle, which this subsection writes down: the handlers in
  force are the ones set last; a request that a route of the server matches is first
  given to the validators that the validator compiler returned for the route's
  \<open>params\<close>, \<open>body\<close> and \<open>querystring\<close> schemas, and reaches the route's handler only
  when none of them throws; a request that no route of the server matches, and that a
  route added by a registered plugin matches, is answered by that plugin (the static
  plugin, registered under the prefix \<open>/\<close>, answers the requests for the files of
  its directory); a request that no registered route matches, of the server or of a
  plugin, goes to the not-found handler. Which requests a route of the server matches,
  and which requests the routes of a plugin match, is left to the router: two
  parameters here. What a plugin sends on its own routes, the hooks of plugins and the
  files that exist in a directory are not part of the model.
\<close>

record 'd request =
  method' :: string
  url :: string
  params :: 'd
  body :: 'd
  query :: 'd

definition routes_of :: "('d, 'h, 'p) call list \<Rightarrow> ('d, 'h, 'p) RouteOptions list" where
  "routes_of w = List.map_filter (\<lambda>c. case c of route r \<Rightarrow> Some r | _ \<Rightarrow> None) w"

definition plugins_of :: "('d, 'h, 'p) call list \<Rightarrow> plugin list" where
  "plugins_of w = List.map_filter (\<lambda>c. case c of register pl \<Rightarrow> Some pl | _ \<Rightarrow> None) w"

definition last_option :: "'a list \<Rightarrow> 'a option" where
  "last_option xs = (case rev xs of [] \<Rightarrow> None | x # _ \<Rightarrow> Some x)"

definition notFoundHandler_of :: "('d, 'h, 'p) call list \<Rightarrow> (reply \<Rightarrow> reply) option" where
  "notFoundHandler_of w =
     last_option (List.map_filter (\<lambda>c. case c of setNotFoundHandler f \<Rightarrow> Some f | _ \<Rightarrow> None) w)"

definition validatorCompiler_of ::
  "('d, 'h, 'p) call list \<Rightarrow> ('d ValidationSchema \<Rightarrow> 'd \<Rightarrow> error + 'd) option"
where
  "validatorCompiler_of w =
     last_option (List.map_filter (\<lambda>c. case c of setValidatorCompiler f \<Rightarrow> Some f | _ \<Rightarrow> None) w)"

text \<open>A part of a request without a schema is not validated.\<close>

definition run_validator ::
  "('d ValidationSchema \<Rightarrow> 'd \<Rightarrow> error + 'd) \<Rightarrow> 'd ValidationSchema option \<Rightarrow> 'd \<Rightarrow> error option"
where
  "run_validator compiler part data =
     (case part of
        None \<Rightarrow> None
      | Some s \<Rightarrow> (case compiler s data of Inl e \<Rightarrow> Some e | Inr v \<Rightarrow> None))"

definition validate_request ::
  "('d ValidationSchema \<Rightarrow> 'd \<Rightarrow> error + 'd) \<Rightarrow> ('d, 'h, 'p) RouteOptions \<Rightarrow> 'd request
     \<Rightarrow> error option"
where
  "validate_request compiler r req =
     (case run_validator compiler (route_schema.params (schema r)) (request.params req) of
        Some e \<Rightarrow> Some e
      | None \<Rightarrow>
          (case run_validator compiler (route_schema.body (schema r)) (request.body req) of
             Some e \<Rightarrow> Some e
           | None \<Rightarrow>
               run_validator compiler (route_schema.querystring (schema r)) (request.query req)))"

datatype 'h served =
    Handled 'h
  | ValidationThrew error
  | PluginRoute plugin
  | NotFound reply
  | FrameworkDefault

definition fresh_reply :: reply where
  "fresh_reply = \<lparr>statusCode = 200, sent = []\<rparr>"

definition serve ::
  "(('d, 'h, 'p) RouteOptions \<Rightarrow> 'd request \<Rightarrow> bool) \<Rightarrow> (plugin \<Rightarrow> 'd request \<Rightarrow> bool)
     \<Rightarrow> ('d, 'h, 'p) call list \<Rightarrow> 'd request \<Rightarrow> 'h served"
where
  "serve matches plugin_matches w req =
     (case find (\<lambda>r. matches r req) (routes_of w) of
        None \<Rightarrow>
          (case find (\<lambda>pl. plugin_matches pl req) (plugins_of w) of
             Some pl \<Rightarrow> PluginRoute pl
           | None \<Rightarrow>
               (case notFoundHandler_of w of
                  None \<Rightarrow> FrameworkDefault
                | Some h \<Rightarrow> NotFound (h fresh_reply)))
      | Some r \<Rightarrow>
          (case validatorCompiler_of w of
             None \<Rightarrow> FrameworkDefault
           | Some compiler \<Rightarrow>
               (case validate_request compiler r req of
                  Some e \<Rightarrow> ValidationThrew e
                | None \<Rightarrow> Handled (RouteOptions.handler r))))"

text \<open>
  Modelled from the spec: the plugin \<open>fileUpload\<close> of \<open>~/libs/plugins/plugins.js\<close> is
  not among the source files. By the specification, it rejects an upload whose content
  type is not one of its allowed extensions, and an upload larger than its file size.
\<close>

record upload =
  mimetype :: string
  size_in_bytes :: nat

definition fileUpload_accepts :: "plugin \<Rightarrow> upload \<Rightarrow> bool" where
  "fileUpload_accepts pl u =
     (case pl of
        fileUpload allowed limit \<Rightarrow> mimetype u \<in> set allowed \<and> size_in_bytes u \<le> limit
      | _ \<Rightarrow> True)"

section \<open>The courses controller\<close>

text \<open>
  \<open>APIHandlerResponse\<close>, and the course service by the one method the controller calls.
  The outcome of the call depends on the state \<open>'s\<close> of the service at the time of the
  call: \<open>Inr v\<close> when the promise resolves with \<open>v\<close>, \<open>Inl x\<close> when it rejects with \<open>x\<close>.
\<close>

datatype 'a APIHandlerResponse = APIHandlerResponse (payload: 'a) (status: nat)

record ('s, 'c) CourseService =
  findAllByVendor :: "'s \<Rightarrow> thrown + 'c"

definition CourseController_findAllByVendor ::
  "('s, 'c) CourseService \<Rightarrow> 's \<Rightarrow> thrown + 'c APIHandlerResponse"
where
  "CourseController_findAllByVendor courseService s =
     (case findAllByVendor courseService s of
        Inl x \<Rightarrow> Inl x
      | Inr v \<Rightarrow> Inr (APIHandlerResponse v HTTPCode_OK))"

text \<open>
  The constructor registers one route. \<open>CoursesApiPath.ROOT\<close> is not among the source
  files and is a parameter. The result is the list of the routes given to
  \<open>this.addRoute\<close>.
\<close>

datatype 'h ControllerRoute = ControllerRoute (handler: 'h) (method': string) (path: string)

definition CourseController ::
  "string \<Rightarrow> ('s, 'c) CourseService \<Rightarrow> ('s \<Rightarrow> thrown + 'c APIHandlerResponse) ControllerRoute list"
where
  "CourseController ROOT courseService =
     [ControllerRoute (\<lambda>s. CourseController_findAllByVendor courseService s) ''GET'' ROOT]"

section \<open>The frontend\<close>

subsection \<open>The thunk that adds a course\<close>

datatype NotificationMessage = COURSE_ADDED

text \<open>
  The calls of the payload creator on the two members of \<open>extra\<close> that it uses, in
  order. \<open>userCourseApi.add\<close> resolves with a course or rejects.
\<close>

datatype 'q thunk_call = userCourseApi_add 'q | notification_success NotificationMessage

definition add :: "('q \<Rightarrow> thrown + 'c) \<Rightarrow> 'q \<Rightarrow> (thrown + 'c) \<times> 'q thunk_call list" where
  "add api_add requestPayload =
     (case api_add requestPayload of
        Inl x \<Rightarrow> (Inl x, [userCourseApi_add requestPayload])
      | Inr newCourse \<Rightarrow>
          (Inr newCourse,
           [userCourseApi_add requestPayload, notification_success COURSE_ADDED]))"

subsection \<open>The notification list item\<close>

text \<open>
  Modelled from the spec: the enum \<open>NotificationStatus\<close> and the helper
  \<open>getValidClassNames\<close> are not among the source files. The component names the member
  \<open>READ\<close> only; \<open>UNREAD\<close> stands for every other status. \<open>getValidClassNames\<close> keeps the
  class names among its arguments and drops \<open>false\<close>, which is \<open>None\<close> here.
\<close>

datatype NotificationStatus = READ | UNREAD

datatype NotificationResponseDto = NotificationResponseDto (id': nat) (status: NotificationStatus)

definition getValidClassNames :: "string option list \<Rightarrow> string list" where
  "getValidClassNames args = List.map_filter (\<lambda>a. a) args"

text \<open>
  One render of the item while \<open>useInView\<close> reports \<open>inView\<close>: the class names of the
  list item, and the arguments with which the effect calls \<open>onRead\<close>. The children of
  the list item do not depend on the status and are left out.
\<close>

record rendered_item =
  className :: "string list"
  onRead_calls :: "nat list"

definition NotificationListItem :: "NotificationResponseDto \<Rightarrow> bool \<Rightarrow> rendered_item" where
  "NotificationListItem notification inView =
     (let isRead = (NotificationResponseDto.status notification = READ)
      in \<lparr>className = getValidClassNames
                         [Some ''notification'', if \<not> isRead then Some ''unread'' else None],
          onRead_calls = (if \<not> isRead \<and> inView then [id' notification] else [])\<rparr>)"

subsection \<open>The friends tab\<close>

text \<open>
  Modelled from the spec: the constant \<open>EMPTY_ARRAY_LENGTH\<close> is not among the source
  files; it is the length of the empty array.
\<close>

definition EMPTY_ARRAY_LENGTH :: nat where
  "EMPTY_ARRAY_LENGTH = 0"

text \<open>The result of \<open>usePagination\<close>, by the four members the tab reads.\<close>

record ('f, 'g) pagination =
  handlePageChange :: 'f
  page :: nat
  pages :: 'g
  pagesCount :: nat

datatype ('u, 'f, 'g) element =
    FriendList (friends: "'u list")
  | Pagination (currentPage: nat) (onPageChange: 'f) (pages: 'g) (pagesCount: nat)

definition FriendsTab :: "'u list \<Rightarrow> ('f, 'g) pagination \<Rightarrow> ('u, 'f, 'g) element list" where
  "FriendsTab items pg =
     (let hasPages = (length items > EMPTY_ARRAY_LENGTH)
      in FriendList items
         # (if hasPages
            then [Pagination (page pg) (handlePageChange pg) (pagination.pages pg)
                    (pagination.pagesCount pg)]
            else []))"

section \<open>Example values\<close>

text \<open>
  A server with one API and one route, whose body schema accepts the numbers below ten,
  and a router that matches a request to a route by its method and its URL.
\<close>

definition example_libs :: libs where
  "example_libs =
     \<lparr>MAX_FILE_SIZE_IN_MB = 5, getSizeInBytes = (\<lambda>mb. mb * 1024 * 1024),
      ContentType_JPEG = ''image/jpeg'', ContentType_PNG = ''image/png'',
      WHITE_ROUTES = Opaque ''WHITE_ROUTES''\<rparr>"

definition small_number :: "nat ValidationSchema" where
  "small_number =
     ValidationSchema (\<lambda>d. if d < 10 then Inr d
        else Inl \<lparr>error.message = ''too big'', error.cause = None, error.stack = None,
                  error.issues = Some [Issue ''too big'' [Name ''count'']], error.status = None\<rparr>)"

definition example_route :: "(nat, string, string) ServerApplicationRouteParameters" where
  "example_route =
     RouteParameters ''create'' ''POST'' ''/items'' None
       (Some (Validation (Some small_number) None None))"

definition example_api :: "(nat, string, string) ServerApplicationApi" where
  "example_api = Api (\<lambda>title. Opaque (title @ '' v1'')) [example_route] ''/api/v1''"

definition example_server :: "(nat, string, string) BaseServerApplication" where
  "example_server =
     \<lparr>apis = [example_api],
      config = \<lparr>HOST = ''0.0.0.0'', PORT = 3000, ENVIRONMENT = ''development''\<rparr>,
      title = ''Trackmates'', token = Opaque ''token'', userService = Opaque ''userService'',
      moduleFile = [''app'', ''build'', ''libs'', ''modules'', ''server-application'', ''base.js'']\<rparr>"

definition same_method_and_url :: "('d, 'h, 'p) RouteOptions \<Rightarrow> 'd request \<Rightarrow> bool" where
  "same_method_and_url r req =
     (RouteOptions.method' r = request.method' req \<and> RouteOptions.url r = request.url req)"

text \<open>
  The routes of the plugins, for the example router: the CORS plugin answers the
  \<open>OPTIONS\<close> requests, the static plugin the \<open>GET\<close> and \<open>HEAD\<close> requests under its
  prefix, the swagger UI the \<open>GET\<close> requests under its route prefix; the other plugins
  add no route.
\<close>

definition starts_with :: "string \<Rightarrow> string \<Rightarrow> bool" where
  "starts_with p u = (take (length p) u = p)"

definition example_plugin_routes :: "plugin \<Rightarrow> 'd request \<Rightarrow> bool" where
  "example_plugin_routes pl req =
     (case pl of
        fastifyCors org ms \<Rightarrow> request.method' req = ''OPTIONS''
      | fastifyStatic pre dir \<Rightarrow>
          (request.method' req = ''GET'' \<or> request.method' req = ''HEAD'')
          \<and> starts_with pre (request.url req)
      | swaggerUi pre \<Rightarrow> request.method' req = ''GET'' \<and> starts_with pre (request.url req)
      | _ \<Rightarrow> False)"

text \<open>
  Four requests: one for a file of the static directory, one that no route matches, and
  two that post an item.
\<close>

definition stylesheet :: "nat request" where
  "stylesheet =
     \<lparr>request.method' = ''GET'', request.url = ''/style.css'', request.params = 0,
      request.body = 0, request.query = 0\<rparr>"

definition unknown_post :: "nat request" where
  "unknown_post =
     \<lparr>request.method' = ''POST'', request.url = ''/friends'', request.params = 0,
      request.body = 0, request.query = 0\<rparr>"

definition large_item :: "nat request" where
  "large_item =
     \<lparr>request.method' = ''POST'', request.url = ''/items'', request.params = 0,
      request.body = 42, request.query = 0\<rparr>"

definition small_item :: "nat request" where
  "small_item =
     \<lparr>request.method' = ''POST'', request.url = ''/items'', request.params = 0,
      request.body = 3, request.query = 0\<rparr>"

text \<open>
  A course service that fails in state 0, and a course API that rejects the payload 0.
\<close>

definition example_courses :: "(nat, string list) CourseService" where
  "example_courses =
     \<lparr>findAllByVendor = (\<lambda>s. if s = 0 then Inl (OtherValue ''database is down'')
                                else Inr [''course-a'', ''course-b''])\<rparr>"

definition example_api_add :: "nat \<Rightarrow> thrown + string" where
  "example_api_add q = (if q = 0 then Inl (OtherValue ''no such course'') else Inr ''course'')"

section \<open>Properties\<close>

subsection \<open>The calls of each method\<close>

text \<open>
  Every method appends its calls to the world it is given. The lemmas below give the
  calls of \<open>init\<close> as the calls of its steps, one after the other, and what Fastify
  holds after them.
\<close>

lemma addRoute_calls:
  "addRoute p w = w @ addRoute p []"
  by (simp add: addRoute_def)

lemma addRoutes_calls:
  "addRoutes ps w = w @ concat (map (\<lambda>p. addRoute p []) ps)"
proof (induction ps arbitrary: w)
  case Nil
  show ?case by simp
next
  case (Cons p ps)
  have "addRoutes (p # ps) w = addRoutes ps (addRoute p w)" by simp
  also have "\<dots> = addRoute p w @ concat (map (\<lambda>p. addRoute p []) ps)" by (rule Cons.IH)
  also have "\<dots> = w @ concat (map (\<lambda>p. addRoute p []) (p # ps))"
    using addRoute_calls [of p w] by simp
  finally show ?case .
qed

lemma routes_of_append: "routes_of (xs @ ys) = routes_of xs @ routes_of ys"
  by (simp add: routes_of_def map_filter_def)

lemma routes_of_addRoute: "routes_of (addRoute p []) = [routeParameters p]"
  by (simp add: routes_of_def map_filter_def addRoute_def)

lemma routes_of_addRoutes: "routes_of (addRoutes ps w) = routes_of w @ map routeParameters ps"
proof (induction ps arbitrary: w)
  case Nil
  show ?case by simp
next
  case (Cons p ps)
  then show ?case
    using addRoute_calls [of p w] by (simp add: routes_of_append routes_of_addRoute)
qed

lemma addRoutes_foldl: "addRoutes ps w = foldl (\<lambda>w p. addRoute p w) w ps"
  by (induction ps arbitrary: w) simp_all

lemma initServe_calls: "initServe self w = w @ initServe self []"
  by (simp add: initServe_def)

lemma initMiddlewares_calls: "initMiddlewares self w = w @ initMiddlewares self []"
  by (simp add: initMiddlewares_def)

lemma initValidationCompiler_calls: "initValidationCompiler w = w @ initValidationCompiler []"
  by (simp add: initValidationCompiler_def)

lemma initErrorHandler_calls: "initErrorHandler w = w @ initErrorHandler []"
  by (simp add: initErrorHandler_def)

lemma initPlugins_calls: "initPlugins L self w = w @ initPlugins L self []"
  by (simp add: initPlugins_def)

lemma initRoutes_calls: "initRoutes self w = w @ initRoutes self []"
  using addRoutes_calls [of "concat (map routes (apis self))" w]
    addRoutes_calls [of "concat (map routes (apis self))" "[]"]
  by (simp add: initRoutes_def)

lemma initSocket_calls: "initSocket w = w @ initSocket []"
  by (simp add: initSocket_def)

lemma initCrons_calls: "initCrons w = w @ initCrons []"
  by (simp add: initCrons_def)

lemmas method_calls =
  initServe_calls initMiddlewares_calls initValidationCompiler_calls initErrorHandler_calls
  initPlugins_calls initRoutes_calls initSocket_calls initCrons_calls

lemma init_world:
  "snd (init L self out w0) =
     w0 @ [logger (Info (''Application initialization'' @ ellipsis))]
        @ initServe self []
        @ initMiddlewares self []
        @ initValidationCompiler []
        @ initErrorHandler []
        @ initPlugins L self []
        @ initRoutes self []
        @ initSocket []
        @ initCrons []
        @ [database_connect]
        @ [listen (HOST (config self)) (PORT (config self))]
        @ (case out of
             None \<Rightarrow>
               [logger (Info (''Application is listening on PORT '' @ en_dash @ '' ''
                               @ number_toString (PORT (config self))
                               @ '', on ENVIRONMENT '' @ en_dash @ '' ''
                               @ ENVIRONMENT (config self) @ ''.''))]
           | Some (ErrorInstance e) \<Rightarrow>
               [logger (Error (error.message e) (Some (Meta (error.cause e) (error.stack e))))]
           | Some (OtherValue v) \<Rightarrow> [])"
proof -
  have r:
    "\<And>w. w \<noteq> [] \<Longrightarrow> initServe self w = w @ initServe self []"
    "\<And>w. w \<noteq> [] \<Longrightarrow> initMiddlewares self w = w @ initMiddlewares self []"
    "\<And>w::('a, 'b, 'c) call list. w \<noteq> [] \<Longrightarrow> initValidationCompiler w = w @ initValidationCompiler []"
    "\<And>w::('a, 'b, 'c) call list. w \<noteq> [] \<Longrightarrow> initErrorHandler w = w @ initErrorHandler []"
    "\<And>w. w \<noteq> [] \<Longrightarrow> initPlugins L self w = w @ initPlugins L self []"
    "\<And>w. w \<noteq> [] \<Longrightarrow> initRoutes self w = w @ initRoutes self []"
    "\<And>w::('a, 'b, 'c) call list. w \<noteq> [] \<Longrightarrow> initSocket w = w @ initSocket []"
    "\<And>w::('a, 'b, 'c) call list. w \<noteq> [] \<Longrightarrow> initCrons w = w @ initCrons []"
    using method_calls by blast+
  show ?thesis
    by (simp add: init_def Let_def r del: number_toString.simps
        split: option.split thrown.split)
qed

lemma init_result:
  "fst (init L self out w0) = (case out of None \<Rightarrow> Inr () | Some x \<Rightarrow> Inl x)"
  by (simp add: init_def Let_def split: option.split)


lemma last_option_snoc: "last_option (xs @ [x]) = Some x"
  by (simp add: last_option_def)

lemma selected_addRoutes:
  "(\<And>r. f (route r) = None) \<Longrightarrow> (\<And>e. f (logger e) = None)
     \<Longrightarrow> List.map_filter f (addRoutes ps []) = []"
  using addRoutes_calls [of ps "[]"]
  by (simp add: map_filter_def addRoute_def filter_concat)

lemma selected_initMiddlewares:
  "(\<And>pl. f (register pl) = None) \<Longrightarrow> (\<And>e. f (logger e) = None)
     \<Longrightarrow> List.map_filter f (initMiddlewares self []) = []"
  by (simp add: map_filter_def initMiddlewares_def filter_concat comp_def)

lemma notFoundHandler_of_init:
  "notFoundHandler_of (snd (init L self out w0))
     = Some (\<lambda>response. reply_sendFile ''index.html'' (staticPath self) response)"
proof -
  let ?f = "\<lambda>c::('a, 'b, 'c) call. case c of setNotFoundHandler f \<Rightarrow> Some f | _ \<Rightarrow> None"
  have a: "List.map_filter ?f (initMiddlewares self []) = []"
    by (rule selected_initMiddlewares) simp_all
  have b: "List.map_filter ?f (initRoutes self []) = []"
    unfolding initRoutes_def Let_def by (rule selected_addRoutes) simp_all
  have m: "\<And>xs ys. List.map_filter ?f (xs @ ys) = List.map_filter ?f xs @ List.map_filter ?f ys"
    by (simp add: map_filter_def)
  have "List.map_filter ?f (snd (init L self out w0))
          = List.map_filter ?f w0 @ [\<lambda>response. reply_sendFile ''index.html'' (staticPath self) response]"
    unfolding init_world m a b
    by (simp add: map_filter_def initServe_def initValidationCompiler_def initErrorHandler_def
        initPlugins_def initSocket_def initCrons_def split: option.split thrown.split)
  then show ?thesis
    by (simp add: notFoundHandler_of_def last_option_snoc)
qed

lemma validatorCompiler_of_init:
  "validatorCompiler_of (snd (init L self out w0)) = Some (\<lambda>schema data. parse schema data)"
proof -
  let ?f = "\<lambda>c::('a, 'b, 'c) call. case c of setValidatorCompiler f \<Rightarrow> Some f | _ \<Rightarrow> None"
  have a: "List.map_filter ?f (initMiddlewares self []) = []"
    by (rule selected_initMiddlewares) simp_all
  have b: "List.map_filter ?f (initRoutes self []) = []"
    unfolding initRoutes_def Let_def by (rule selected_addRoutes) simp_all
  have m: "\<And>xs ys. List.map_filter ?f (xs @ ys) = List.map_filter ?f xs @ List.map_filter ?f ys"
    by (simp add: map_filter_def)
  have "List.map_filter ?f (snd (init L self out w0))
          = List.map_filter ?f w0 @ [\<lambda>schema data. parse schema data]"
    unfolding init_world m a b
    by (simp add: map_filter_def initServe_def initValidationCompiler_def initErrorHandler_def
        initPlugins_def initSocket_def initCrons_def split: option.split thrown.split)
  then show ?thesis
    by (simp add: validatorCompiler_of_def last_option_snoc)
qed

lemma routes_of_Nil: "routes_of [] = []"
  by (simp add: routes_of_def)

lemma routes_of_init:
  "routes_of (snd (init L self out w0))
     = routes_of w0 @ map routeParameters (concat (map routes (apis self)))"
proof -
  have a: "routes_of (initMiddlewares self []) = []"
    unfolding routes_of_def by (rule selected_initMiddlewares) simp_all
  have b: "routes_of (initRoutes self []) = map routeParameters (concat (map routes (apis self)))"
    by (simp add: initRoutes_def routes_of_addRoutes routes_of_Nil)
  show ?thesis
    unfolding init_world routes_of_append a b
    by (simp add: routes_of_def map_filter_def initServe_def initValidationCompiler_def
        initErrorHandler_def initPlugins_def initSocket_def initCrons_def
        split: option.split thrown.split)
qed

lemma plugins_of_append: "plugins_of (xs @ ys) = plugins_of xs @ plugins_of ys"
  by (simp add: plugins_of_def map_filter_def)

lemma plugins_of_initMiddlewares:
  "plugins_of (initMiddlewares self [])
     = map (\<lambda>api. swagger ''static'' (generateDoc api (title self))) (apis self)
       @ map (\<lambda>api. swaggerUi (version api @ ''/documentation'')) (apis self)"
proof -
  have first: "plugins_of (concat (map (\<lambda>api.
                    [logger (Info (''Generate swagger documentation for API '' @ version api)),
                     register (swagger ''static'' (generateDoc api (title self)))]) as))
     = map (\<lambda>api. swagger ''static'' (generateDoc api (title self))) as" for as
    by (induction as) (simp_all add: plugins_of_def map_filter_def)
  have second: "plugins_of (map (\<lambda>api. register (swaggerUi (version api @ ''/documentation''))) as)
     = map (\<lambda>api. swaggerUi (version api @ ''/documentation'')) as" for as
    by (induction as) (simp_all add: plugins_of_def map_filter_def)
  show ?thesis
    unfolding initMiddlewares_def
    by (simp only: append_Nil plugins_of_append first second)
qed

lemma plugins_of_init:
  "plugins_of (snd (init L self out w0))
     = plugins_of w0
       @ [fastifyStatic ''/'' (staticPath self)]
       @ map (\<lambda>api. swagger ''static'' (generateDoc api (title self))) (apis self)
       @ map (\<lambda>api. swaggerUi (version api @ ''/documentation'')) (apis self)
       @ [authorization (userService self) (token self) (WHITE_ROUTES L),
          fileUpload [ContentType_JPEG L, ContentType_PNG L]
            (getSizeInBytes L (MAX_FILE_SIZE_IN_MB L))]"
proof -
  have routes: "plugins_of (initRoutes self []) = []"
    unfolding initRoutes_def Let_def plugins_of_def by (rule selected_addRoutes) simp_all
  show ?thesis
    unfolding init_world plugins_of_append plugins_of_initMiddlewares routes
    by (simp add: plugins_of_def map_filter_def initServe_def initValidationCompiler_def
        initErrorHandler_def initPlugins_def initSocket_def initCrons_def
        split: option.split thrown.split)
qed

lemma fastifyStatic_registered:
  "register (fastifyStatic ''/'' (staticPath self)) \<in> set (snd (init L self out w0))"
  by (simp add: init_world initServe_def)

lemma example_routes:
  "routes_of (snd (init example_libs example_server out [])) = [routeParameters example_route]"
  by (simp add: routes_of_init routes_of_Nil example_server_def example_api_def)

subsection \<open>When the validators throw\<close>

lemma run_validator_throws:
  "(\<exists>e. run_validator (\<lambda>schema data. parse schema data) part data = Some e)
     = (\<exists>s. part = Some s \<and> isl (parse s data))"
  by (auto simp add: run_validator_def isl_def split: option.splits sum.splits)

lemma validate_request_throws:
  "(\<exists>e. validate_request (\<lambda>schema data. parse schema data) r req = Some e)
     = ((\<exists>s. route_schema.params (schema r) = Some s \<and> isl (parse s (request.params req)))
        \<or> (\<exists>s. route_schema.body (schema r) = Some s \<and> isl (parse s (request.body req)))
        \<or> (\<exists>s. route_schema.querystring (schema r) = Some s \<and> isl (parse s (request.query req))))"
proof -
  let ?c = "\<lambda>schema data. parse schema data"
  have "(\<exists>e. validate_request ?c r req = Some e)
      = ((\<exists>e. run_validator ?c (route_schema.params (schema r)) (request.params req) = Some e)
         \<or> (\<exists>e. run_validator ?c (route_schema.body (schema r)) (request.body req) = Some e)
         \<or> (\<exists>e. run_validator ?c (route_schema.querystring (schema r)) (request.query req) = Some e))"
    by (auto simp add: validate_request_def split: option.splits)
  then show ?thesis
    by (simp only: run_validator_throws)
qed

subsection \<open>The error handler\<close>

text \<open>
  C1. For every error passed to the error handler, exactly one response is sent, and its
  message is the error's message. An error that carries \<open>issues\<close> is answered with 422,
  error type \<open>VALIDATION\<close> and one detail (message and path) per issue, in order; an
  \<open>HTTPError\<close> is answered with its own status and error type \<open>COMMON\<close>; every other
  error with 500 and error type \<open>COMMON\<close>. The handler tests for \<open>issues\<close> first, so the
  three cases are read in this order.
\<close>

theorem errorHandler_sends_one_response:
  "\<exists>code payload.
     sent (snd (errorHandler e rp)) = sent rp @ [Payload code payload]
     \<and> response.message payload = error.message e
     \<and> (case error.issues e of
          Some iss \<Rightarrow>
            code = 422
            \<and> payload = ServerValidationErrorResponse
                 (map (\<lambda>i. Detail (issue.message i) (issue.path i)) iss) VALIDATION
                 (error.message e)
            \<and> length (details payload) = length iss
        | None \<Rightarrow>
            (case error.status e of
               Some s \<Rightarrow> code = s \<and> payload = ServerCommonErrorResponse COMMON (error.message e)
             | None \<Rightarrow>
                 code = 500 \<and> payload = ServerCommonErrorResponse COMMON (error.message e)))"
  by (simp add: errorHandler_def reply_send_def reply_status_def
      HTTPCode_UNPROCESSED_ENTITY_def HTTPCode_INTERNAL_SERVER_ERROR_def
      split: option.split)

subsection \<open>The courses controller\<close>

text \<open>
  C2. The constructor of the controller registers one route, GET on the root path, and
  every invocation of its handler in which \<open>courseService.findAllByVendor()\<close> resolves
  returns the status \<open>HTTPCode.OK\<close> and, as its payload, the very value the service
  resolved with.
\<close>

theorem findAllByVendor_returns_service_result:
  assumes "findAllByVendor courseService s = Inr v"
  shows "map (\<lambda>r. (ControllerRoute.method' r, ControllerRoute.path r, ControllerRoute.handler r s))
           (CourseController ROOT courseService)
         = [(''GET'', ROOT, Inr (APIHandlerResponse v HTTPCode_OK))]"
  using assms by (simp add: CourseController_def CourseController_findAllByVendor_def)

text \<open>The theorem at a service that resolves with two courses.\<close>

theorem findAllByVendor_returns_service_result_witness:
  "findAllByVendor example_courses 1 = Inr [''course-a'', ''course-b'']
   \<and> map (\<lambda>r. (ControllerRoute.method' r, ControllerRoute.path r, ControllerRoute.handler r 1))
         (CourseController ''/'' example_courses)
       = [(''GET'', ''/'', Inr (APIHandlerResponse [''course-a'', ''course-b''] 200))]"
proof -
  have h: "findAllByVendor example_courses 1 = Inr [''course-a'', ''course-b'']"
    by (simp add: example_courses_def)
  show ?thesis
    using h findAllByVendor_returns_service_result [OF h, of "''/''"]
    by (simp add: HTTPCode_OK_def)
qed

subsection \<open>Validation\<close>

text \<open>
  C3. After \<open>init\<close>, the validator that the server compiles for a schema applied to
  data returns \<open>schema.parse(data)\<close>, so it throws exactly when the schema rejects the
  data. A route registered from parameters with a validation object carries the
  schemas of that object; for a request routed to it, a validator throws exactly when
  one of these schemas rejects its part of the request, and then the handler of the
  route is not reached.
\<close>

theorem validator_is_schema_parse:
  assumes "ServerApplicationRouteParameters.validation parameters = Some v"
    and "find (\<lambda>r. matches r req) (routes_of (snd (init L self out w0)))
           = Some (routeParameters parameters)"
  shows "\<exists>compiler.
           validatorCompiler_of (snd (init L self out w0)) = Some compiler
           \<and> (\<forall>schema data. compiler schema data = parse schema data)
           \<and> (\<forall>schema data. isl (compiler schema data) = isl (parse schema data))
           \<and> RouteOptions.schema (routeParameters parameters)
               = Schema (validation.body v) (validation.params v) (validation.query v)
           \<and> (\<exists>e. serve matches plugin_matches (snd (init L self out w0)) req = ValidationThrew e)
               = ((\<exists>s. validation.params v = Some s \<and> isl (parse s (request.params req)))
                  \<or> (\<exists>s. validation.body v = Some s \<and> isl (parse s (request.body req)))
                  \<or> (\<exists>s. validation.query v = Some s \<and> isl (parse s (request.query req))))
           \<and> ((\<exists>s. validation.params v = Some s \<and> isl (parse s (request.params req)))
                  \<or> (\<exists>s. validation.body v = Some s \<and> isl (parse s (request.body req)))
                  \<or> (\<exists>s. validation.query v = Some s \<and> isl (parse s (request.query req)))
                \<longrightarrow> (\<forall>h. serve matches plugin_matches (snd (init L self out w0)) req \<noteq> Handled h))"
proof -
  let ?c = "\<lambda>schema data. parse schema data"
  let ?w = "snd (init L self out w0)"
  let ?r = "routeParameters parameters"
  have sch: "RouteOptions.schema ?r
               = Schema (validation.body v) (validation.params v) (validation.query v)"
    using assms(1) by (simp add: routeParameters_def Let_def)
  have hd: "RouteOptions.handler ?r = ServerApplicationRouteParameters.handler parameters"
    by (simp add: routeParameters_def Let_def)
  have srv: "serve matches plugin_matches ?w req
               = (case validate_request ?c ?r req of
                    Some e \<Rightarrow> ValidationThrew e
                  | None \<Rightarrow> Handled (ServerApplicationRouteParameters.handler parameters))"
    using assms(2) by (simp add: serve_def validatorCompiler_of_init hd split: option.split)
  have threw: "(\<exists>e. serve matches plugin_matches ?w req = ValidationThrew e)
                 = (\<exists>e. validate_request ?c ?r req = Some e)"
    unfolding srv by (cases "validate_request ?c ?r req") simp_all
  have reached: "(\<exists>e. validate_request ?c ?r req = Some e)
                   \<longrightarrow> (\<forall>h. serve matches plugin_matches ?w req \<noteq> Handled h)"
    unfolding srv by (cases "validate_request ?c ?r req") simp_all
  have inv: "(\<exists>e. validate_request ?c ?r req = Some e)
      = ((\<exists>s. validation.params v = Some s \<and> isl (parse s (request.params req)))
         \<or> (\<exists>s. validation.body v = Some s \<and> isl (parse s (request.body req)))
         \<or> (\<exists>s. validation.query v = Some s \<and> isl (parse s (request.query req))))"
    unfolding validate_request_throws sch by simp
  show ?thesis
    using validatorCompiler_of_init [of L self out w0] sch threw reached inv
    by simp
qed

text \<open>
  The theorem at the example server: an item of 42 is rejected by the body schema and
  the handler is not reached; an item of 3 reaches it.
\<close>

theorem validator_is_schema_parse_witness:
  "ServerApplicationRouteParameters.validation example_route
     = Some (Validation (Some small_number) None None)
   \<and> find (\<lambda>r. same_method_and_url r large_item)
       (routes_of (snd (init example_libs example_server None [])))
     = Some (routeParameters example_route)
   \<and> (\<exists>e. serve same_method_and_url example_plugin_routes
          (snd (init example_libs example_server None [])) large_item
            = ValidationThrew e)
   \<and> find (\<lambda>r. same_method_and_url r small_item)
       (routes_of (snd (init example_libs example_server None [])))
     = Some (routeParameters example_route)
   \<and> serve same_method_and_url example_plugin_routes
          (snd (init example_libs example_server None [])) small_item
     = Handled ''create''"
proof -
  have v: "ServerApplicationRouteParameters.validation example_route
             = Some (Validation (Some small_number) None None)"
    by (simp add: example_route_def)
  have large: "find (\<lambda>r. same_method_and_url r large_item)
       (routes_of (snd (init example_libs example_server None [])))
     = Some (routeParameters example_route)"
    by (simp add: example_routes same_method_and_url_def large_item_def routeParameters_def
        example_route_def)
  have small: "find (\<lambda>r. same_method_and_url r small_item)
       (routes_of (snd (init example_libs example_server None [])))
     = Some (routeParameters example_route)"
    by (simp add: example_routes same_method_and_url_def small_item_def routeParameters_def
        example_route_def)
  have rejected: "isl (parse small_number (request.body large_item))"
    and accepted: "\<not> isl (parse small_number (request.body small_item))"
    by (simp_all add: small_number_def large_item_def small_item_def)
  from v large rejected
    validator_is_schema_parse
      [of example_route "Validation (Some small_number) None None" same_method_and_url
        large_item example_libs example_server None "[]" example_plugin_routes]
  have a: "\<exists>e. serve same_method_and_url example_plugin_routes
          (snd (init example_libs example_server None [])) large_item
            = ValidationThrew e"
    by auto
  from small accepted
  have b: "serve same_method_and_url example_plugin_routes
          (snd (init example_libs example_server None [])) small_item
     = Handled ''create''"
    by (simp add: serve_def validatorCompiler_of_init validate_request_def run_validator_def
        routeParameters_def example_route_def isl_def split: sum.splits)
  from v large small a b show ?thesis
    by blast
qed

subsection \<open>Start-up\<close>

text \<open>
  C4, as amended. \<open>init\<close> makes its calls in this order: it serves the static files
  (the static plugin and the not-found handler), registers swagger and its UI for every
  API, sets the validator compiler and the error handler, registers the authorization
  and file-upload plugins, registers the routes, initialises the socket service and the
  crons, connects the database and finally listens on the configured host and port.
  When \<open>listen\<close> rejects, \<open>init\<close> rejects with the same value, and the failure is
  logged, with its cause and stack, when that value is an instance of \<open>Error\<close>.
\<close>

theorem init_order:
  "init L self out w0 =
     (case out of None \<Rightarrow> Inr () | Some x \<Rightarrow> Inl x,
      w0 @ [logger (Info (''Application initialization'' @ ellipsis))]
         @ [register (fastifyStatic ''/'' (staticPath self)),
            setNotFoundHandler (\<lambda>response. reply_sendFile ''index.html'' (staticPath self) response)]
         @ (concat (map (\<lambda>api.
                      [logger (Info (''Generate swagger documentation for API '' @ version api)),
                       register (swagger ''static'' (generateDoc api (title self)))])
                    (apis self))
            @ map (\<lambda>api. register (swaggerUi (version api @ ''/documentation''))) (apis self))
         @ [setValidatorCompiler (\<lambda>schema data. parse schema data)]
         @ [setErrorHandler errorHandler]
         @ [register (authorization (userService self) (token self) (WHITE_ROUTES L)),
            register (fileUpload [ContentType_JPEG L, ContentType_PNG L]
                        (getSizeInBytes L (MAX_FILE_SIZE_IN_MB L)))]
         @ addRoutes (concat (map routes (apis self))) []
         @ [socketService_initialize]
         @ [subscriptionService_initCrone]
         @ [database_connect]
         @ [listen (HOST (config self)) (PORT (config self))]
         @ (case out of
              None \<Rightarrow>
                [logger (Info (''Application is listening on PORT '' @ en_dash @ '' ''
                                @ number_toString (PORT (config self))
                                @ '', on ENVIRONMENT '' @ en_dash @ '' ''
                                @ ENVIRONMENT (config self) @ ''.''))]
            | Some (ErrorInstance e) \<Rightarrow>
                [logger (Error (error.message e) (Some (Meta (error.cause e) (error.stack e))))]
            | Some (OtherValue v) \<Rightarrow> []))"
  by (simp add: prod_eq_iff init_result init_world initServe_def initMiddlewares_def
      initValidationCompiler_def initErrorHandler_def initPlugins_def initRoutes_def
      initSocket_def initCrons_def del: number_toString.simps
      split: option.split thrown.split)


text \<open>
  C4, as stated, fails where \<open>listen\<close> rejects with a value that is not an instance of
  \<open>Error\<close>: \<open>init\<close> rejects with it, the last call made is \<open>listen\<close> itself, and
  the logger has received no error.
\<close>

theorem init_unlogged_failure:
  "fst (init example_libs example_server (Some (OtherValue ''refused'')) [])
     = Inl (OtherValue ''refused'')
   \<and> last (snd (init example_libs example_server (Some (OtherValue ''refused'')) []))
     = listen ''0.0.0.0'' 3000
   \<and> filter logs_error
       (snd (init example_libs example_server (Some (OtherValue ''refused'')) []))
     = []"
  by (simp add: init_result init_world example_server_def example_api_def initServe_def
      initMiddlewares_def initValidationCompiler_def initErrorHandler_def initPlugins_def
      initRoutes_def initSocket_def initCrons_def addRoute_def logs_error_def)


subsection \<open>Route registration\<close>

text \<open>
  C5. \<open>addRoutes\<close> registers its routes one by one, in list order, through \<open>addRoute\<close>;
  \<open>initRoutes\<close> registers the routes of all APIs, concatenated in the order of the
  APIs. A registered route has the method, path and handler of its parameters, their
  pre-handlers (none when they are omitted), and a schema whose \<open>body\<close>, \<open>params\<close> and
  \<open>querystring\<close> are the \<open>body\<close>, \<open>params\<close> and \<open>query\<close> of their validation object.
\<close>

theorem routes_registered_in_order:
  "addRoutes ps w = foldl (\<lambda>w p. addRoute p w) w ps
   \<and> routes_of (addRoute p w) = routes_of w @ [routeParameters p]
   \<and> routes_of (addRoutes ps w) = routes_of w @ map routeParameters ps
   \<and> routes_of (initRoutes self w)
       = routes_of w @ map routeParameters (concat (map routes (apis self)))
   \<and> RouteOptions.method' (routeParameters p) = ServerApplicationRouteParameters.method' p
   \<and> RouteOptions.url (routeParameters p) = ServerApplicationRouteParameters.path p
   \<and> RouteOptions.handler (routeParameters p) = ServerApplicationRouteParameters.handler p
   \<and> RouteOptions.preHandler (routeParameters p)
       = (case ServerApplicationRouteParameters.preHandlers p of None \<Rightarrow> [] | Some hs \<Rightarrow> hs)
   \<and> RouteOptions.schema (routeParameters p)
       = (case ServerApplicationRouteParameters.validation p of
            None \<Rightarrow> Schema None None None
          | Some v \<Rightarrow> Schema (validation.body v) (validation.params v) (validation.query v))"
proof -
  have one_by_one: "addRoutes ps w = foldl (\<lambda>w p. addRoute p w) w ps"
    by (rule addRoutes_foldl)
  have single: "routes_of (addRoute p w) = routes_of w @ [routeParameters p]"
    using addRoute_calls [of p w] by (simp add: routes_of_append routes_of_addRoute)
  have several: "routes_of (addRoutes ps w) = routes_of w @ map routeParameters ps"
    by (rule routes_of_addRoutes)
  have all_apis: "routes_of (initRoutes self w)
       = routes_of w @ map routeParameters (concat (map routes (apis self)))"
    by (simp add: initRoutes_def routes_of_addRoutes)
  have m: "RouteOptions.method' (routeParameters p) = ServerApplicationRouteParameters.method' p"
    by (simp add: routeParameters_def Let_def)
  have u: "RouteOptions.url (routeParameters p) = ServerApplicationRouteParameters.path p"
    by (simp add: routeParameters_def Let_def)
  have h: "RouteOptions.handler (routeParameters p) = ServerApplicationRouteParameters.handler p"
    by (simp add: routeParameters_def Let_def)
  have pre: "RouteOptions.preHandler (routeParameters p)
       = (case ServerApplicationRouteParameters.preHandlers p of None \<Rightarrow> [] | Some hs \<Rightarrow> hs)"
    by (simp add: routeParameters_def Let_def)
  have sch: "RouteOptions.schema (routeParameters p)
       = (case ServerApplicationRouteParameters.validation p of
            None \<Rightarrow> Schema None None None
          | Some v \<Rightarrow> Schema (validation.body v) (validation.params v) (validation.query v))"
    by (simp add: routeParameters_def Let_def split: option.split)
  from one_by_one single several all_apis m u h pre sch show ?thesis
    by blast
qed

subsection \<open>The thunk that adds a course\<close>

text \<open>
  C6. For every request payload, the payload creator of the \<open>add\<close> thunk resolves with
  the course that \<open>userCourseApi.add\<close> resolved with, and shows the \<open>COURSE_ADDED\<close>
  success notification after that call; when the call rejects, it rejects with the same
  value and shows no success notification.
\<close>

theorem add_notifies_after_api_resolves:
  "(api_add requestPayload = Inr newCourse \<longrightarrow>
      add api_add requestPayload
        = (Inr newCourse, [userCourseApi_add requestPayload, notification_success COURSE_ADDED]))
   \<and> (api_add requestPayload = Inl x \<longrightarrow>
      fst (add api_add requestPayload) = Inl x
      \<and> notification_success COURSE_ADDED \<notin> set (snd (add api_add requestPayload)))"
  by (simp add: add_def)

text \<open>The theorem at an API that accepts the payload 7 and rejects the payload 0.\<close>

theorem add_notifies_after_api_resolves_witness:
  "example_api_add 7 = Inr ''course''
   \<and> add example_api_add 7 = (Inr ''course'', [userCourseApi_add 7, notification_success COURSE_ADDED])
   \<and> example_api_add 0 = Inl (OtherValue ''no such course'')
   \<and> fst (add example_api_add 0) = Inl (OtherValue ''no such course'')
   \<and> notification_success COURSE_ADDED \<notin> set (snd (add example_api_add 0))"
proof -
  have r: "example_api_add 7 = Inr ''course''"
    and f: "example_api_add 0 = Inl (OtherValue ''no such course'')"
    by (simp_all add: example_api_add_def)
  from r f
    add_notifies_after_api_resolves [of example_api_add 7 "''course''" "OtherValue ''no such course''"]
    add_notifies_after_api_resolves [of example_api_add 0 "''course''" "OtherValue ''no such course''"]
  show ?thesis by simp
qed

subsection \<open>The file-upload plugin\<close>

text \<open>
  C7. \<open>initPlugins\<close> registers the file-upload plugin after the authorization plugin,
  with the allowed extensions \<open>ContentType.JPEG\<close> and \<open>ContentType.PNG\<close> and no other,
  and with the file size \<open>getSizeInBytes(MAX_FILE_SIZE_IN_MB)\<close>; the plugin so
  registered rejects every upload of another content type and every upload larger than
  that size.
\<close>

theorem fileUpload_registered_with_limits:
  "(let limits = fileUpload [ContentType_JPEG L, ContentType_PNG L]
                   (getSizeInBytes L (MAX_FILE_SIZE_IN_MB L))
    in plugins_of (initPlugins L self w)
         = plugins_of w
           @ [authorization (userService self) (token self) (WHITE_ROUTES L), limits]
       \<and> set (allowedExtensions limits) = {ContentType_JPEG L, ContentType_PNG L}
       \<and> fileSize limits = getSizeInBytes L (MAX_FILE_SIZE_IN_MB L)
       \<and> (mimetype u \<notin> {ContentType_JPEG L, ContentType_PNG L}
            \<or> size_in_bytes u > getSizeInBytes L (MAX_FILE_SIZE_IN_MB L)
          \<longrightarrow> \<not> fileUpload_accepts limits u))"
  by (auto simp add: Let_def plugins_of_def map_filter_def initPlugins_def fileUpload_accepts_def)

text \<open>
  The theorem at the example constants (5 MB): a GIF is rejected, and so is a PNG of
  6000000 bytes.
\<close>

theorem fileUpload_registered_with_limits_witness:
  "mimetype \<lparr>mimetype = ''image/gif'', size_in_bytes = 100\<rparr>
     \<notin> {ContentType_JPEG example_libs, ContentType_PNG example_libs}
   \<and> \<not> fileUpload_accepts (fileUpload [''image/jpeg'', ''image/png''] 5242880)
         \<lparr>mimetype = ''image/gif'', size_in_bytes = 100\<rparr>
   \<and> size_in_bytes \<lparr>mimetype = ''image/png'', size_in_bytes = 6000000\<rparr>
       > getSizeInBytes example_libs (MAX_FILE_SIZE_IN_MB example_libs)
   \<and> \<not> fileUpload_accepts (fileUpload [''image/jpeg'', ''image/png''] 5242880)
         \<lparr>mimetype = ''image/png'', size_in_bytes = 6000000\<rparr>"
  using
    fileUpload_registered_with_limits
      [of example_libs example_server "[]" "\<lparr>mimetype = ''image/gif'', size_in_bytes = 100\<rparr>"]
    fileUpload_registered_with_limits
      [of example_libs example_server "[]" "\<lparr>mimetype = ''image/png'', size_in_bytes = 6000000\<rparr>"]
  by (simp add: Let_def example_libs_def)

subsection \<open>The notification list item\<close>

text \<open>
  C8. The effect of the item calls \<open>onRead\<close>, with the id of the notification, exactly
  when the status of the notification is not \<open>READ\<close> and the item is in view. For a
  notification whose status is \<open>READ\<close>, \<open>onRead\<close> is not called and the list item does
  not get the class \<open>unread\<close>.
\<close>

theorem NotificationListItem_reads_unread_in_view:
  "onRead_calls (NotificationListItem notification inView)
     = (if NotificationResponseDto.status notification \<noteq> READ \<and> inView
        then [id' notification] else [])
   \<and> onRead_calls (NotificationListItem (NotificationResponseDto i READ) inView) = []
   \<and> ''unread'' \<notin> set (className (NotificationListItem (NotificationResponseDto i READ) inView))"
  by (simp add: NotificationListItem_def getValidClassNames_def map_filter_def Let_def)

subsection \<open>Requests that match no route\<close>

text \<open>
  C9. After \<open>init\<close>, a request that no registered route matches, neither a route of
  the server nor a route added by a registered plugin, is answered by the not-found
  handler of \<open>initServe\<close>: it sends the file \<open>index.html\<close> of the static directory, the
  directory the static plugin serves, and sends no error payload.
\<close>

theorem unmatched_request_gets_index_html:
  assumes "find (\<lambda>r. matches r req) (routes_of (snd (init L self out w0))) = None"
    and "find (\<lambda>pl. plugin_matches pl req) (plugins_of (snd (init L self out w0))) = None"
  shows "\<exists>response.
           serve matches plugin_matches (snd (init L self out w0)) req = NotFound response
           \<and> sent response = [File ''index.html'' (staticPath self)]
           \<and> register (fastifyStatic ''/'' (staticPath self)) \<in> set (snd (init L self out w0))"
  using assms
  by (simp add: serve_def notFoundHandler_of_init fastifyStatic_registered reply_sendFile_def
      fresh_reply_def)

text \<open>
  The theorem at the example server, started in the world of the constructor, and a
  POST request for \<open>/friends\<close>, which no route of the server and no route of a plugin
  matches. A GET request for \<open>/style.css\<close> is matched by the route of the static plugin
  and does not reach the not-found handler.
\<close>

theorem unmatched_request_gets_index_html_witness:
  "find (\<lambda>r. same_method_and_url r unknown_post)
     (routes_of (snd (init example_libs example_server None constructor))) = None
   \<and> find (\<lambda>pl. example_plugin_routes pl unknown_post)
       (plugins_of (snd (init example_libs example_server None constructor))) = None
   \<and> (\<exists>response.
         serve same_method_and_url example_plugin_routes
           (snd (init example_libs example_server None constructor)) unknown_post
           = NotFound response
         \<and> sent response = [File ''index.html'' [''app'', ''public'']])
   \<and> serve same_method_and_url example_plugin_routes
         (snd (init example_libs example_server None constructor)) stylesheet
       = PluginRoute (fastifyStatic ''/'' [''app'', ''public''])"
proof -
  let ?w = "snd (init example_libs example_server None constructor) :: (nat, string, string) call list"
  have p: "staticPath example_server = [''app'', ''public'']"
    by (simp add: staticPath_def example_server_def dirname_def)
  have start: "routes_of (constructor :: (nat, string, string) call list) = []"
    "plugins_of (constructor :: (nat, string, string) call list)
       = [fastifyCors ''*'' [''GET'', ''POST'', ''PUT'', ''DELETE'', ''PATCH'']]"
    by (simp_all add: routes_of_def plugins_of_def map_filter_def constructor_def)
  have routes: "routes_of ?w = [routeParameters example_route]"
    by (simp add: routes_of_init start example_server_def example_api_def)
  have plugins: "plugins_of ?w
      = [fastifyCors ''*'' [''GET'', ''POST'', ''PUT'', ''DELETE'', ''PATCH''],
         fastifyStatic ''/'' [''app'', ''public''],
         swagger ''static'' (Opaque ''Trackmates v1''),
         swaggerUi ''/api/v1/documentation'',
         authorization (Opaque ''userService'') (Opaque ''token'') (Opaque ''WHITE_ROUTES''),
         fileUpload [''image/jpeg'', ''image/png''] 5242880]"
    using p
    by (simp add: plugins_of_init start example_server_def example_api_def example_libs_def)
  have own: "find (\<lambda>r. same_method_and_url r unknown_post) (routes_of ?w) = None"
    by (simp add: routes same_method_and_url_def unknown_post_def routeParameters_def
        example_route_def)
  have plug: "find (\<lambda>pl. example_plugin_routes pl unknown_post) (plugins_of ?w) = None"
    by (simp add: plugins example_plugin_routes_def unknown_post_def)
  have static: "serve same_method_and_url example_plugin_routes ?w stylesheet
       = PluginRoute (fastifyStatic ''/'' [''app'', ''public''])"
    by (simp add: serve_def routes plugins same_method_and_url_def example_plugin_routes_def
        stylesheet_def routeParameters_def example_route_def starts_with_def)
  from own plug p static
    unmatched_request_gets_index_html
      [of same_method_and_url unknown_post example_libs example_server None constructor
        example_plugin_routes]
  show ?thesis
    by auto
qed

subsection \<open>The friends tab\<close>

text \<open>
  C10. \<open>FriendsTab\<close> renders the \<open>Pagination\<close> component if and only if its items are
  not empty, that is, more than \<open>EMPTY_ARRAY_LENGTH\<close>; for no items it renders the
  \<open>FriendList\<close> only, whatever the pagination object holds.
\<close>

theorem FriendsTab_pagination_iff_items:
  "(\<exists>c f p n. Pagination c f p n \<in> set (FriendsTab items pg)) = (items \<noteq> [])
   \<and> (length items > EMPTY_ARRAY_LENGTH) = (items \<noteq> [])
   \<and> FriendsTab [] pg = [FriendList []]
   \<and> FriendsTab items pg
       = (if items \<noteq> []
          then [FriendList items,
                Pagination (page pg) (handlePageChange pg) (pagination.pages pg)
                  (pagination.pagesCount pg)]
          else [FriendList items])"
  by (auto simp add: FriendsTab_def EMPTY_ARRAY_LENGTH_def Let_def)

end
